theory Spec2Isabelle
  imports Main "HOL-Library.List_Lexorder" "HOL-Library.Sublist"
begin

section \<open>The script \<open>scripts/update-lambda-env-sms.py\<close>\<close>

text \<open>
  The script is one module-level sequence of statements: it prints a progress line, runs
  the provider's read-configuration command, parses its output, overlays the literal
  dictionary \<open>sms_config\<close>, runs the provider's update-configuration command with the
  merged dictionary, parses the confirmation and prints one line per variable.

  The embedding keeps that shape. What the script takes from outside (the two
  sub-process calls and the library functions \<open>json.loads\<close>, \<open>json.dumps\<close> and
  \<open>str\<close>) is a record of functions, the \<open>world\<close>, that \<open>main\<close> receives. What the script
  does to the outside is the \<open>outcome\<close> that \<open>main\<close> returns: the strings given to
  \<open>print\<close>, the command lines given to \<open>subprocess.run\<close>, and how the process ended.
\<close>

subsection \<open>Python strings\<close>

text \<open>
  A Python \<open>str\<close> is a sequence of Unicode code points: \<open>len\<close> counts code points,
  slices cut between them and comparison is lexicographic on them. So a \<open>str\<close> is a
  list of naturals, ordered by the lexicographic order on lists.
\<close>

type_synonym pystr = "nat list"

definition lit :: "string \<Rightarrow> pystr" where
  "lit cs = map of_char cs"

text \<open>\<open>sub in s\<close> on strings: \<open>sub\<close> occurs in \<open>s\<close> as a contiguous run.\<close>

fun str_in :: "pystr \<Rightarrow> pystr \<Rightarrow> bool" where
  "str_in sub [] = (sub = [])"
| "str_in sub (c # cs) = (prefix sub (c # cs) \<or> str_in sub cs)"

text \<open>The decimal text of a natural number, as an f-string prints \<open>len(...)\<close>.\<close>

function str_of_nat :: "nat \<Rightarrow> pystr" where
  "str_of_nat n = (if n < 10 then [48 + n] else str_of_nat (n div 10) @ [48 + n mod 10])"
  by pat_completeness auto
termination
  by (relation "measure (\<lambda>n. n)") auto

text \<open>\<open>sorted(...)\<close> on a collection of strings.\<close>

definition sorted_py :: "pystr list \<Rightarrow> pystr list" where
  "sorted_py ks = sort ks"

subsection \<open>JSON values and dictionaries\<close>

text \<open>
  What \<open>json.loads\<close> returns. A \<open>dict\<close> is an association list in insertion order; the
  script never looks into a number, so the type of numbers is a parameter.
\<close>

datatype 'n json =
    JNull
  | JBool bool
  | JNum 'n
  | JStr pystr
  | JArr "'n json list"
  | JObj "(pystr \<times> 'n json) list"

type_synonym 'n dict = "(pystr \<times> 'n json) list"

datatype py_exception =
    OSError
  | JSONDecodeError
  | TypeError
  | KeyError pystr
  | AttributeError

text \<open>\<open>d[k] = v\<close>: an existing key keeps its place and takes the new value, a new key
  goes to the end.\<close>

fun dict_set :: "pystr \<Rightarrow> 'v \<Rightarrow> (pystr \<times> 'v) list \<Rightarrow> (pystr \<times> 'v) list" where
  "dict_set k v [] = [(k, v)]"
| "dict_set k v ((k', v') # d) = (if k' = k then (k, v) # d else (k', v') # dict_set k v d)"

text \<open>\<open>{**a, **b}\<close>: the items of \<open>a\<close>, then each item of \<open>b\<close> stored in turn.\<close>

fun merge :: "(pystr \<times> 'v) list \<Rightarrow> (pystr \<times> 'v) list \<Rightarrow> (pystr \<times> 'v) list" where
  "merge a [] = a"
| "merge a ((k, v) # b) = merge (dict_set k v a) b"

text \<open>\<open>len(x)\<close>: defined on strings, lists and dictionaries, a \<open>TypeError\<close> otherwise.\<close>

fun len :: "'n json \<Rightarrow> py_exception + nat" where
  "len (JStr s) = Inr (length s)"
| "len (JArr xs) = Inr (length xs)"
| "len (JObj d) = Inr (length d)"
| "len _ = Inl TypeError"

text \<open>\<open>x[k]\<close> with a string \<open>k\<close>: only a dictionary can be indexed by a string.\<close>

fun getitem :: "'n json \<Rightarrow> pystr \<Rightarrow> py_exception + 'n json" where
  "getitem (JObj d) k = (case map_of d k of None \<Rightarrow> Inl (KeyError k) | Some v \<Rightarrow> Inr v)"
| "getitem _ k = Inl TypeError"

text \<open>\<open>x.keys()\<close>: only a dictionary has the method.\<close>

fun keys :: "'n json \<Rightarrow> py_exception + pystr list" where
  "keys (JObj d) = Inr (map fst d)"
| "keys _ = Inl AttributeError"

text \<open>\<open>x[:10]\<close>: strings and lists are cut to their first ten elements; a dictionary
  cannot be sliced (numbers, booleans and \<open>None\<close> neither). For a dictionary the
  exception is a \<open>TypeError\<close> up to Python 3.11 and a \<open>KeyError\<close> from 3.12 on; the model
  keeps the former, and no property below depends on which one it is.\<close>

fun slice10 :: "'n json \<Rightarrow> py_exception + 'n json" where
  "slice10 (JStr s) = Inr (JStr (take 10 s))"
| "slice10 (JArr xs) = Inr (JArr (take 10 xs))"
| "slice10 _ = Inl TypeError"

subsection \<open>The constants of the script\<close>

definition function_name :: pystr where
  "function_name = lit ''scrapmate-node-api-production''"

definition region :: pystr where
  "region = lit ''ap-south-1''"

definition sms_config :: "'n dict" where
  "sms_config =
    [(lit ''SMS_API_URL_NEW'', JStr (lit ''http://4sms.alp-ts.com/api/sms/v1.0/send-sms'')),
     (lit ''SMS_API_ENITYID'', JStr (lit ''1701173389563945545'')),
     (lit ''SMS_API_TOKEN'', JStr (lit ''EVLZ8267TMY1O2Z'')),
     (lit ''SMS_API_KEY'', JStr (lit ''/BR2+k;L(-aPKA@r%5SO*GzcCm8&Hg6o'')),
     (lit ''SMS_HEADER_CENTER_ID'', JStr (lit ''SCRPMT''))]"

definition fetch_argv :: "pystr list" where
  "fetch_argv =
    [lit ''aws'', lit ''lambda'', lit ''get-function-configuration'',
     lit ''--function-name'', function_name,
     lit ''--region'', region,
     lit ''--query'', lit ''Environment.Variables'',
     lit ''--output'', lit ''json'']"

definition update_argv :: "pystr \<Rightarrow> pystr list" where
  "update_argv env_json_str =
    [lit ''aws'', lit ''lambda'', lit ''update-function-configuration'',
     lit ''--function-name'', function_name,
     lit ''--region'', region,
     lit ''--environment'', env_json_str]"

subsection \<open>The outside of the script\<close>

record completed_process =
  returncode :: int
  stdout :: pystr
  stderr :: pystr

text \<open>
  \<open>subprocess_run\<close> is \<open>subprocess.run(argv, capture_output=True, text=True)\<close>: it
  returns the completed process, or raises when the command cannot be started.
  \<open>json_loads\<close> returns \<open>None\<close> where \<open>json.loads\<close> raises \<open>JSONDecodeError\<close>.
  \<open>str_of\<close> is \<open>str\<close> on a value that is not a string.
\<close>

record 'n world =
  subprocess_run :: "pystr list \<Rightarrow> py_exception + completed_process"
  json_loads :: "pystr \<Rightarrow> 'n json option"
  json_dumps :: "'n json \<Rightarrow> pystr"
  str_of :: "'n json \<Rightarrow> pystr"

text \<open>
  How the process ends: it runs off the end of the module, it calls \<open>sys.exit\<close>, or an
  exception that nothing catches leaves the statement at the given line of the source.
\<close>

datatype exit = Completed | SysExit int | Uncaught nat py_exception

fun exit_status :: "exit \<Rightarrow> int" where
  "exit_status Completed = 0"
| "exit_status (SysExit n) = n"
| "exit_status (Uncaught l e) = 1"

text \<open>
  The script writes with \<open>print\<close> only, which goes to the standard output stream. The
  standard error stream of the process receives one thing: the traceback of the
  interpreter for an uncaught exception.
\<close>

datatype stderr_item = Traceback nat py_exception

fun stderr_of_exit :: "exit \<Rightarrow> stderr_item list" where
  "stderr_of_exit (Uncaught l e) = [Traceback l e]"
| "stderr_of_exit _ = []"

record outcome =
  printed :: "pystr list"
  calls :: "pystr list list"
  exit :: exit

definition process_stderr :: "outcome \<Rightarrow> stderr_item list" where
  "process_stderr r = stderr_of_exit (exit r)"

subsection \<open>The report (lines 66 to 72)\<close>

text \<open>An f-string field \<open>{x}\<close>: a string as it is, another value through \<open>str\<close>.\<close>

fun format_py :: "'n world \<Rightarrow> 'n json \<Rightarrow> pystr" where
  "format_py w (JStr s) = s"
| "format_py w x = str_of w x"

definition sensitive :: "pystr \<Rightarrow> bool" where
  "sensitive key =
    (str_in (lit ''KEY'') key \<or> str_in (lit ''TOKEN'') key \<or>
     str_in (lit ''SECRET'') key \<or> str_in (lit ''PRIVATE'') key)"

text \<open>Lines 68 to 71. In line 69 the condition \<open>len(value) > 10\<close> is evaluated first.\<close>

definition display_value :: "'n world \<Rightarrow> pystr \<Rightarrow> 'n json \<Rightarrow> py_exception + 'n json" where
  "display_value w key val =
    (if sensitive key then
       (case len val of
          Inl e \<Rightarrow> Inl e
        | Inr n \<Rightarrow>
            if n > 10 then
              (case slice10 val of
                 Inl e \<Rightarrow> Inl e
               | Inr pre \<Rightarrow> Inr (JStr (format_py w pre @ lit ''...'')))
            else Inr (JStr (lit ''***'')))
     else Inr val)"

text \<open>Line 72: three spaces, the check mark U+2705, a space, the key, a colon, the value.\<close>

definition report_line :: "'n world \<Rightarrow> pystr \<Rightarrow> 'n json \<Rightarrow> pystr" where
  "report_line w key dv = [32, 32, 32, 9989, 32] @ key @ lit '': '' @ format_py w dv"

text \<open>The loop over the sorted keys; the lines printed before an exception stay printed.\<close>

fun report :: "'n world \<Rightarrow> 'n json \<Rightarrow> pystr list \<Rightarrow> pystr list \<times> exit" where
  "report w variables [] = ([], Completed)"
| "report w variables (key # ks) =
    (case getitem variables key of
       Inl e \<Rightarrow> ([], Uncaught 67 e)
     | Inr val \<Rightarrow>
         (case display_value w key val of
            Inl e \<Rightarrow> ([], Uncaught 69 e)
          | Inr dv \<Rightarrow>
              (case report w variables ks of
                 (ls, ex) \<Rightarrow> (report_line w key dv # ls, ex))))"

subsection \<open>The merge (line 43)\<close>

text \<open>\<open>{**current_env, **sms_config}\<close>: unpacking needs a mapping.\<close>

fun updated_env :: "'n json \<Rightarrow> py_exception + 'n dict" where
  "updated_env (JObj current_env) = Inr (merge current_env sms_config)"
| "updated_env _ = Inl TypeError"

subsection \<open>The script\<close>

text \<open>The texts of the fixed \<open>print\<close> calls, each named by its line.\<close>

definition line24 :: pystr where
  "line24 = [128269] @ lit '' Fetching current environment variables from ''
            @ function_name @ lit ''...''"

definition line36 :: "pystr \<Rightarrow> pystr" where
  "line36 err = [10060] @ lit '' Error fetching current configuration: '' @ err"

definition line40 :: "nat \<Rightarrow> pystr" where
  "line40 n = [9989] @ lit '' Current environment variables: '' @ str_of_nat n
              @ lit '' variables''"

definition line44 :: "nat \<Rightarrow> pystr" where
  "line44 n = [9989] @ lit '' Updated environment variables: '' @ str_of_nat n
              @ lit '' variables''"

definition line45 :: pystr where
  "line45 = lit ''   Added SMS configuration variables''"

definition line48 :: pystr where
  "line48 = [10, 128228] @ lit '' Updating Lambda function environment variables...''"

definition line60 :: "pystr \<Rightarrow> pystr" where
  "line60 err = [10060] @ lit '' Error updating configuration: '' @ err"

definition line64 :: pystr where
  "line64 = [9989] @ lit '' Successfully updated Lambda function!''"

definition line65 :: pystr where
  "line65 = [10, 128203] @ lit '' Updated environment variables:''"

text \<open>Lines 63 to 72, after the update call has returned status 0.\<close>

definition report_stage :: "'n world \<Rightarrow> pystr list \<Rightarrow> pystr list list \<Rightarrow> pystr \<Rightarrow> outcome" where
  "report_stage w out cs update_stdout =
    (case json_loads w update_stdout of
       None \<Rightarrow> \<lparr>printed = out, calls = cs, exit = Uncaught 63 JSONDecodeError\<rparr>
     | Some updated_config \<Rightarrow>
         (let out' = out @ [line64, line65] in
          case getitem updated_config (lit ''Environment'') of
            Inl e \<Rightarrow> \<lparr>printed = out', calls = cs, exit = Uncaught 66 e\<rparr>
          | Inr environment \<Rightarrow>
              (case getitem environment (lit ''Variables'') of
                 Inl e \<Rightarrow> \<lparr>printed = out', calls = cs, exit = Uncaught 66 e\<rparr>
               | Inr variables \<Rightarrow>
                   (case keys variables of
                      Inl e \<Rightarrow> \<lparr>printed = out', calls = cs, exit = Uncaught 66 e\<rparr>
                    | Inr ks \<Rightarrow>
                        (case report w variables (sorted_py ks) of
                           (ls, ex) \<Rightarrow> \<lparr>printed = out' @ ls, calls = cs, exit = ex\<rparr>)))))"

text \<open>Lines 44 to 61, after the merge.\<close>

definition submit_stage :: "'n world \<Rightarrow> pystr list \<Rightarrow> 'n dict \<Rightarrow> outcome" where
  "submit_stage w out upd =
    (let out' = out @ [line44 (length upd), line45, line48];
         env_json_str = json_dumps w (JObj [(lit ''Variables'', JObj upd)]);
         cs = [fetch_argv, update_argv env_json_str]
     in case subprocess_run w (update_argv env_json_str) of
          Inl e \<Rightarrow> \<lparr>printed = out', calls = cs, exit = Uncaught 50 e\<rparr>
        | Inr update_result \<Rightarrow>
            if returncode update_result \<noteq> 0 then
              \<lparr>printed = out' @ [line60 (stderr update_result)], calls = cs, exit = SysExit 1\<rparr>
            else report_stage w out' cs (stdout update_result))"

text \<open>The whole module, lines 24 to 72.\<close>

definition main :: "'n world \<Rightarrow> outcome" where
  "main w =
    (case subprocess_run w fetch_argv of
       Inl e \<Rightarrow> \<lparr>printed = [line24], calls = [fetch_argv], exit = Uncaught 25 e\<rparr>
     | Inr result \<Rightarrow>
         if returncode result \<noteq> 0 then
           \<lparr>printed = [line24, line36 (stderr result)], calls = [fetch_argv], exit = SysExit 1\<rparr>
         else
           (case json_loads w (stdout result) of
              None \<Rightarrow>
                \<lparr>printed = [line24], calls = [fetch_argv], exit = Uncaught 39 JSONDecodeError\<rparr>
            | Some current_env \<Rightarrow>
                (case len current_env of
                   Inl e \<Rightarrow> \<lparr>printed = [line24], calls = [fetch_argv], exit = Uncaught 40 e\<rparr>
                 | Inr n \<Rightarrow>
                     (case updated_env current_env of
                        Inl e \<Rightarrow>
                          \<lparr>printed = [line24, line40 n], calls = [fetch_argv],
                           exit = Uncaught 43 e\<rparr>
                      | Inr upd \<Rightarrow> submit_stage w [line24, line40 n] upd))))"

subsection \<open>Example worlds\<close>

text \<open>
  Concrete worlds on which the properties below are exercised. The library functions
  are stubs: \<open>stub_loads\<close> knows the texts \<open>null\<close> and \<open>{}\<close>, one text standing for a
  fetched set of two variables, and one standing for the provider's confirmation that
  echoes the merged set.
\<close>

definition example_env :: "nat dict" where
  "example_env =
    [(lit ''FOO'', JStr (lit ''bar'')), (lit ''SMS_API_KEY'', JStr (lit ''old-value''))]"

definition stub_loads :: "pystr \<Rightarrow> nat json option" where
  "stub_loads s =
    (if s = lit ''null'' then Some JNull
     else if s = lit ''{}'' then Some (JObj [])
     else if s = lit ''FETCHED'' then Some (JObj example_env)
     else if s = lit ''CONFIRMATION'' then
       Some (JObj [(lit ''Environment'',
                    JObj [(lit ''Variables'', JObj (merge example_env sms_config))])])
     else None)"

definition example_world ::
  "(pystr list \<Rightarrow> py_exception + completed_process) \<Rightarrow> nat world" where
  "example_world run =
    \<lparr>subprocess_run = run, json_loads = stub_loads,
     json_dumps = (\<lambda>j. lit ''PAYLOAD''), str_of = (\<lambda>j. lit ''?'')\<rparr>"

text \<open>The fetch call ends with status 254 and an error text.\<close>

definition run_fetch_fails :: "pystr list \<Rightarrow> py_exception + completed_process" where
  "run_fetch_fails argv =
    Inr \<lparr>returncode = 254, stdout = [], stderr = lit ''AccessDenied''\<rparr>"

text \<open>The fetch call succeeds and prints \<open>null\<close>.\<close>

definition run_null :: "pystr list \<Rightarrow> py_exception + completed_process" where
  "run_null argv = Inr \<lparr>returncode = 0, stdout = lit ''null'', stderr = []\<rparr>"

text \<open>Both calls succeed: the function has two variables, the update is confirmed.\<close>

definition run_ok :: "pystr list \<Rightarrow> py_exception + completed_process" where
  "run_ok argv =
    (if argv = fetch_argv then Inr \<lparr>returncode = 0, stdout = lit ''FETCHED'', stderr = []\<rparr>
     else Inr \<lparr>returncode = 0, stdout = lit ''CONFIRMATION'', stderr = []\<rparr>)"

text \<open>As \<open>run_ok\<close>, but a command with no words cannot be started.\<close>

definition run_ok_elsewhere :: "pystr list \<Rightarrow> py_exception + completed_process" where
  "run_ok_elsewhere argv = (if argv = [] then Inl OSError else run_ok argv)"

text \<open>The fetch call succeeds, the update call ends with status 255.\<close>

definition run_update_fails :: "pystr list \<Rightarrow> py_exception + completed_process" where
  "run_update_fails argv =
    (if argv = fetch_argv then Inr \<lparr>returncode = 0, stdout = lit ''{}'', stderr = []\<rparr>
     else Inr \<lparr>returncode = 255, stdout = [], stderr = lit ''Throttled''\<rparr>)"

text \<open>
  A world whose serialiser tells payloads apart and whose parser reads the serialised
  text back: the merged set of the example is written as \<open>MERGED\<close>, any other value
  as \<open>OTHER\<close>.
\<close>

definition echo_dumps :: "nat json \<Rightarrow> pystr" where
  "echo_dumps j =
    (if j = JObj [(lit ''Variables'', JObj (merge example_env sms_config))] then lit ''MERGED''
     else lit ''OTHER'')"

definition echo_loads :: "pystr \<Rightarrow> nat json option" where
  "echo_loads s =
    (if s = lit ''MERGED'' then
       Some (JObj [(lit ''Variables'', JObj (merge example_env sms_config))])
     else stub_loads s)"

definition payload_world :: "nat world" where
  "payload_world =
    \<lparr>subprocess_run = run_ok, json_loads = echo_loads,
     json_dumps = echo_dumps, str_of = (\<lambda>j. lit ''?'')\<rparr>"

section \<open>Properties\<close>

subsection \<open>Dictionaries\<close>

lemma map_of_dict_set: "map_of (dict_set k v d) = (map_of d)(k \<mapsto> v)"
  by (induction d) auto

lemma keys_dict_set: "fst ` set (dict_set k v d) = insert k (fst ` set d)"
  by (induction k v d rule: dict_set.induct) (simp_all add: insert_commute)

lemma dict_set_same: "map_of d k = Some v \<Longrightarrow> dict_set k v d = d"
  by (induction d) (auto split: if_splits)

lemma dict_set_twice: "dict_set k v (dict_set k v' d) = dict_set k v d"
  by (induction d) auto

lemma dict_set_swap: "k \<noteq> k' \<Longrightarrow> k \<in> fst ` set d \<Longrightarrow>
   dict_set k v (dict_set k' v' d) = dict_set k' v' (dict_set k v d)"
  by (induction d) force+

lemma map_of_merge_at:
  "map_of (merge a b) x = (case map_of (rev b) x of None \<Rightarrow> map_of a x | Some v \<Rightarrow> Some v)"
proof (induction a b rule: merge.induct)
  case (1 a)
  show ?case by simp
next
  case (2 a k v b)
  then show ?case
    by (simp add: map_of_dict_set map_add_def split: option.splits)
qed

lemma map_of_merge: "map_of (merge a b) = map_of a ++ map_of (rev b)"
  by (rule ext) (simp add: map_of_merge_at map_add_def)

lemma keys_merge: "fst ` set (merge a b) = fst ` set a \<union> fst ` set b"
  by (induction a b rule: merge.induct) (auto simp: keys_dict_set)

lemma merge_absorb: "k \<in> fst ` set a \<Longrightarrow> k \<in> fst ` set b \<Longrightarrow> merge (dict_set k v a) b = merge a b"
proof (induction a b rule: merge.induct)
  case (1 a) then show ?case by simp
next
  case (2 a k' v' b)
  show ?case
  proof (cases "k' = k")
    case True then show ?thesis by (simp add: dict_set_twice)
  next
    case False
    with 2 have kb: "k \<in> fst ` set b" by auto
    have "dict_set k v (dict_set k' v' a) = dict_set k' v' (dict_set k v a)"
      using False "2.prems"(1) by (intro dict_set_swap) auto
    moreover have "merge (dict_set k v (dict_set k' v' a)) b = merge (dict_set k' v' a) b"
      using "2.IH" kb "2.prems"(1) by (simp add: keys_dict_set)
    ultimately show ?thesis by simp
  qed
qed

lemma merge_idem: "merge (merge a b) b = merge a b"
proof (induction b arbitrary: a)
  case Nil
  show ?case by simp
next
  case (Cons kv b)
  obtain k v where kv: "kv = (k, v)" by (cases kv)
  define a' where "a' = dict_set k v a"
  have again: "dict_set k v (merge a' b) = merge a' b \<or>
               merge (dict_set k v (merge a' b)) b = merge (merge a' b) b"
  proof (cases "k \<in> fst ` set b")
    case True
    then have "merge (dict_set k v (merge a' b)) b = merge (merge a' b) b"
      by (intro merge_absorb) (simp_all add: keys_merge)
    then show ?thesis ..
  next
    case False
    then have "map_of (rev b) k = None"
      by (simp add: map_of_eq_None_iff)
    then have "map_of (merge a' b) k = Some v"
      by (simp add: map_of_merge_at a'_def map_of_dict_set)
    then have "dict_set k v (merge a' b) = merge a' b"
      by (rule dict_set_same)
    then show ?thesis ..
  qed
  then have "merge (dict_set k v (merge a' b)) b = merge (merge a' b) b"
    by auto
  also have "\<dots> = merge a' b"
    by (rule Cons.IH)
  finally show ?case
    by (simp add: kv a'_def)
qed


lemma str_in_sublist: "str_in sub s = sublist sub s"
  by (induction s) (simp_all add: sublist_Cons_right)

lemma distinct_keys_dict_set:
  "distinct (map fst d) \<Longrightarrow> distinct (map fst (dict_set k v d))"
  by (induction k v d rule: dict_set.induct) (auto simp: keys_dict_set)

lemma distinct_keys_merge:
  "distinct (map fst a) \<Longrightarrow> distinct (map fst (merge a b))"
  by (induction a b rule: merge.induct) (simp_all add: distinct_keys_dict_set)

lemma lit_inject: "lit a = lit b \<longleftrightarrow> a = b"
  by (simp add: lit_def inj_map_eq_map inj_def)

lemma sms_config_keys_distinct: "distinct (map fst sms_config)"
  by (simp add: sms_config_def lit_inject)

subsection \<open>The merge\<close>

text \<open>
  Claim C1. For a patch \<open>P\<close> that is a dictionary (its keys are distinct) and any fetched
  set \<open>E\<close>, the merge \<open>{**E, **P}\<close> is the union in which the patch wins: a key that is
  not in \<open>P\<close> is in the result exactly as it is in \<open>E\<close> (with the value it has there, and
  absent if it is absent there), every item of \<open>P\<close> is in the result with the value of
  \<open>P\<close>, and the keys of the result are the keys of \<open>E\<close> and of \<open>P\<close> and no others. Line 43
  of the script is this merge with the literal \<open>sms_config\<close> as the patch. The merge is
  a function of \<open>E\<close> and \<open>P\<close> alone.
\<close>

theorem merge_union_right_precedence:
  assumes "distinct (map fst P)"
  shows "(\<forall>k. k \<notin> fst ` set P \<longrightarrow> map_of (merge E P) k = map_of E k)
       \<and> (\<forall>k v. (k, v) \<in> set P \<longrightarrow> map_of (merge E P) k = Some v)
       \<and> fst ` set (merge E P) = fst ` set E \<union> fst ` set P
       \<and> updated_env (JObj E') = Inr (merge E' sms_config)"
proof (intro conjI allI impI)
  fix k assume "k \<notin> fst ` set P"
  then have "map_of (rev P) k = None"
    by (simp add: map_of_eq_None_iff)
  then show "map_of (merge E P) k = map_of E k"
    by (simp add: map_of_merge_at)
next
  fix k v assume "(k, v) \<in> set P"
  with assms have "map_of (rev P) k = Some v"
    by (simp add: distinct_rev rev_map[symmetric])
  then show "map_of (merge E P) k = Some v"
    by (simp add: map_of_merge_at)
next
  show "fst ` set (merge E P) = fst ` set E \<union> fst ` set P"
    by (rule keys_merge)
next
  show "updated_env (JObj E') = Inr (merge E' sms_config)"
    by simp
qed

theorem merge_union_right_precedence_witness:
  "distinct (map fst (sms_config :: nat dict))
   \<and> map_of (merge [(lit ''FOO'', JStr (lit ''bar'')), (lit ''SMS_API_KEY'', JStr (lit ''old-value''))]
                  (sms_config :: nat dict)) (lit ''FOO'') = Some (JStr (lit ''bar''))
   \<and> map_of (merge [(lit ''FOO'', JStr (lit ''bar'')), (lit ''SMS_API_KEY'', JStr (lit ''old-value''))]
                  (sms_config :: nat dict)) (lit ''SMS_API_KEY'')
       = Some (JStr (lit ''/BR2+k;L(-aPKA@r%5SO*GzcCm8&Hg6o''))"
proof -
  let ?E = "[(lit ''FOO'', JStr (lit ''bar'')), (lit ''SMS_API_KEY'', JStr (lit ''old-value''))] :: nat dict"
  have d: "distinct (map fst (sms_config :: nat dict))"
    by (rule sms_config_keys_distinct)
  have foo: "lit ''FOO'' \<notin> fst ` set (sms_config :: nat dict)"
    by (simp add: sms_config_def lit_inject)
  have key: "(lit ''SMS_API_KEY'', JStr (lit ''/BR2+k;L(-aPKA@r%5SO*GzcCm8&Hg6o'')) \<in> set (sms_config :: nat dict)"
    by (simp add: sms_config_def)
  from merge_union_right_precedence [OF d, of ?E] foo key d show ?thesis
    by simp
qed

text \<open>
  Claim C5. Merging the same patch a second time changes nothing, for every fetched set
  and every patch, and so for the patch of the script.
\<close>

theorem merge_same_patch_twice:
  "merge (merge E P) P = merge E P
   \<and> updated_env (JObj (merge E sms_config)) = updated_env (JObj E)"
  by (simp add: merge_idem)

subsection \<open>The displayed value\<close>

lemma sensitive_sublist:
  "sensitive key \<longleftrightarrow>
     sublist (lit ''KEY'') key \<or> sublist (lit ''TOKEN'') key \<or>
     sublist (lit ''SECRET'') key \<or> sublist (lit ''PRIVATE'') key"
  by (simp add: sensitive_def str_in_sublist)

lemma display_value_str:
  "display_value w key (JStr v) =
     Inr (JStr (if sensitive key then (if length v > 10 then take 10 v @ lit ''...'' else lit ''***'')
                else v))"
  by (simp add: display_value_def)

lemma sensitive_SMS_API_KEY: "sensitive (lit ''SMS_API_KEY'')"
  by (simp add: sensitive_def lit_def)

lemma not_sensitive_SMS_API_URL_NEW: "\<not> sensitive (lit ''SMS_API_URL_NEW'')"
  by (simp add: sensitive_def lit_def)

text \<open>
  Claim C9. For a key whose name contains one of \<open>KEY\<close>, \<open>TOKEN\<close>, \<open>SECRET\<close>, \<open>PRIVATE\<close>
  (as a contiguous run, case as written) the displayed value of a string is its first ten
  characters followed by three dots when it is longer than ten characters, and the fixed
  text of three asterisks when it has ten characters or fewer; for any other key it is
  the string itself, whatever its length, and the printed line carries it in full.
\<close>

theorem masking_rule_exact:
  "(sensitive key \<longrightarrow> length v > 10 \<longrightarrow>
      display_value w key (JStr v) = Inr (JStr (take 10 v @ lit ''...'')))
   \<and> (sensitive key \<longrightarrow> length v \<le> 10 \<longrightarrow>
      display_value w key (JStr v) = Inr (JStr (lit ''***'')))
   \<and> (\<not> sensitive key \<longrightarrow> display_value w key (JStr v) = Inr (JStr v))
   \<and> (sensitive key \<longleftrightarrow>
        sublist (lit ''KEY'') key \<or> sublist (lit ''TOKEN'') key \<or>
        sublist (lit ''SECRET'') key \<or> sublist (lit ''PRIVATE'') key)
   \<and> report_line w key (JStr d) = [32, 32, 32, 9989, 32] @ key @ lit '': '' @ d"
  by (simp add: display_value_str sensitive_sublist report_line_def)

lemma take10_api_key:
  "take 10 (lit ''/BR2+k;L(-aPKA@r%5SO*GzcCm8&Hg6o'') @ lit ''...'' = lit ''/BR2+k;L(-...''"
  by (simp add: lit_def)

lemma length_api_key: "length (lit ''/BR2+k;L(-aPKA@r%5SO*GzcCm8&Hg6o'') > 10"
  by (simp add: lit_def)

theorem masking_rule_exact_witness:
  "sensitive (lit ''SMS_API_KEY'')
   \<and> display_value (example_world run_ok) (lit ''SMS_API_KEY'')
        (JStr (lit ''/BR2+k;L(-aPKA@r%5SO*GzcCm8&Hg6o'')) = Inr (JStr (lit ''/BR2+k;L(-...''))
   \<and> display_value (example_world run_ok) (lit ''SMS_API_KEY'') (JStr (lit ''0123456789''))
        = Inr (JStr (lit ''***''))
   \<and> \<not> sensitive (lit ''SMS_API_URL_NEW'')
   \<and> display_value (example_world run_ok) (lit ''SMS_API_URL_NEW'')
        (JStr (lit ''http://4sms.alp-ts.com/api/sms/v1.0/send-sms''))
        = Inr (JStr (lit ''http://4sms.alp-ts.com/api/sms/v1.0/send-sms''))"
proof -
  have short: "length (lit ''0123456789'') \<le> 10"
    by (simp add: lit_def)
  from masking_rule_exact [of "lit ''SMS_API_KEY''" "lit ''/BR2+k;L(-aPKA@r%5SO*GzcCm8&Hg6o''"
      "example_world run_ok"]
  have long_value: "display_value (example_world run_ok) (lit ''SMS_API_KEY'')
        (JStr (lit ''/BR2+k;L(-aPKA@r%5SO*GzcCm8&Hg6o'')) = Inr (JStr (lit ''/BR2+k;L(-...''))"
    using sensitive_SMS_API_KEY length_api_key take10_api_key by simp
  from masking_rule_exact [of "lit ''SMS_API_KEY''" "lit ''0123456789''" "example_world run_ok"]
  have short_value: "display_value (example_world run_ok) (lit ''SMS_API_KEY'')
        (JStr (lit ''0123456789'')) = Inr (JStr (lit ''***''))"
    using sensitive_SMS_API_KEY short by simp
  from masking_rule_exact [of "lit ''SMS_API_URL_NEW''"
      "lit ''http://4sms.alp-ts.com/api/sms/v1.0/send-sms''" "example_world run_ok"]
  have plain_value: "display_value (example_world run_ok) (lit ''SMS_API_URL_NEW'')
        (JStr (lit ''http://4sms.alp-ts.com/api/sms/v1.0/send-sms''))
        = Inr (JStr (lit ''http://4sms.alp-ts.com/api/sms/v1.0/send-sms''))"
    using not_sensitive_SMS_API_URL_NEW by simp
  from long_value short_value plain_value sensitive_SMS_API_KEY not_sensitive_SMS_API_URL_NEW
  show ?thesis by simp
qed

lemma take10_ellipsis: "take 10 (lit ''0123456789...'') @ lit ''...'' = lit ''0123456789...''"
  by (simp add: lit_def)

lemma length_ellipsis: "length (lit ''0123456789...'') > 10"
  by (simp add: lit_def)

text \<open>
  Claim C4 as stated does not hold: a value of thirteen characters that ends in three
  dots is displayed as it is.
\<close>

theorem masked_value_is_full_value_counterexample:
  "sensitive (lit ''SMS_API_KEY'')
   \<and> length (lit ''0123456789...'') > 10
   \<and> display_value (example_world run_ok) (lit ''SMS_API_KEY'') (JStr (lit ''0123456789...''))
       = Inr (JStr (lit ''0123456789...''))"
  by (simp add: display_value_str sensitive_SMS_API_KEY take10_ellipsis length_ellipsis)

text \<open>
  Claim C4, amended. For a sensitive key and a value longer than ten characters, the
  displayed value is the first ten characters followed by three dots; it is the full
  value only when the value has exactly thirteen characters and ends in three dots.
\<close>

theorem masked_value_differs_unless_ellipsis:
  assumes "sensitive key" "length v > 10"
  shows "display_value w key (JStr v) = Inr (JStr (take 10 v @ lit ''...''))
       \<and> (take 10 v @ lit ''...'' = v \<longleftrightarrow> length v = 13 \<and> drop 10 v = lit ''...'')"
proof -
  have "take 10 v @ lit ''...'' = v \<longleftrightarrow> take 10 v @ lit ''...'' = take 10 v @ drop 10 v"
    by simp
  also have "\<dots> \<longleftrightarrow> drop 10 v = lit ''...''"
    by (simp only: same_append_eq) auto
  also have "\<dots> \<longleftrightarrow> length v = 13 \<and> drop 10 v = lit ''...''"
  proof -
    have "length v = 13" if "drop 10 v = lit ''...''"
    proof -
      from that have "length (drop 10 v) = 3" by (simp add: lit_def)
      with assms(2) show ?thesis by simp
    qed
    then show ?thesis by blast
  qed
  finally show ?thesis
    using assms by (simp add: display_value_str)
qed

theorem masked_value_differs_unless_ellipsis_witness:
  "sensitive (lit ''SMS_API_KEY'')
   \<and> length (lit ''/BR2+k;L(-aPKA@r%5SO*GzcCm8&Hg6o'') > 10
   \<and> display_value (example_world run_ok) (lit ''SMS_API_KEY'')
        (JStr (lit ''/BR2+k;L(-aPKA@r%5SO*GzcCm8&Hg6o'')) = Inr (JStr (lit ''/BR2+k;L(-...''))
   \<and> lit ''/BR2+k;L(-...'' \<noteq> lit ''/BR2+k;L(-aPKA@r%5SO*GzcCm8&Hg6o''"
proof -
  have differ: "lit ''/BR2+k;L(-...'' \<noteq> lit ''/BR2+k;L(-aPKA@r%5SO*GzcCm8&Hg6o''"
    by (simp add: lit_inject)
  from masked_value_differs_unless_ellipsis [OF sensitive_SMS_API_KEY length_api_key,
      of "example_world run_ok"]
  show ?thesis
    using sensitive_SMS_API_KEY length_api_key take10_api_key differ by simp
qed

subsection \<open>The script, stage by stage\<close>

lemma update_argv_neq_fetch_argv: "update_argv p \<noteq> fetch_argv"
  by (simp add: update_argv_def fetch_argv_def)

lemma calls_report_stage: "calls (report_stage w out cs s) = cs"
  by (simp add: report_stage_def Let_def split: option.splits sum.splits prod.splits)

lemma calls_submit_stage:
  "calls (submit_stage w out upd) =
     [fetch_argv, update_argv (json_dumps w (JObj [(lit ''Variables'', JObj upd)]))]"
  by (simp add: submit_stage_def Let_def calls_report_stage split: sum.splits)

lemma main_fetched:
  assumes "subprocess_run w fetch_argv = Inr result" "returncode result = 0"
    "json_loads w (stdout result) = Some (JObj E)"
  shows "main w = submit_stage w [line24, line40 (length E)] (merge E sms_config)"
  using assms by (simp add: main_def)

lemma main_fetch_failed:
  assumes "subprocess_run w fetch_argv = Inr result" "returncode result \<noteq> 0"
  shows "main w =
    \<lparr>printed = [line24, line36 (stderr result)], calls = [fetch_argv], exit = SysExit 1\<rparr>"
  using assms by (simp add: main_def)

lemma main_fetched_null:
  assumes "subprocess_run w fetch_argv = Inr result" "returncode result = 0"
    "json_loads w (stdout result) = Some JNull"
  shows "main w = \<lparr>printed = [line24], calls = [fetch_argv], exit = Uncaught 40 TypeError\<rparr>"
  using assms by (simp add: main_def)

lemma fetch_fails_world:
  "subprocess_run (example_world run_fetch_fails) fetch_argv =
     Inr \<lparr>returncode = 254, stdout = [], stderr = lit ''AccessDenied''\<rparr>"
  by (simp add: example_world_def run_fetch_fails_def)

lemma null_world:
  "subprocess_run (example_world run_null) fetch_argv =
     Inr \<lparr>returncode = 0, stdout = lit ''null'', stderr = []\<rparr>
   \<and> json_loads (example_world run_null) (lit ''null'') = Some JNull"
  by (simp add: example_world_def run_null_def stub_loads_def)

subsection \<open>A failed fetch\<close>

text \<open>
  Claim C3 as stated does not hold in its last part: when the fetch call ends with status
  254 and the error text \<open>AccessDenied\<close>, the standard error stream of the process
  stays empty; the text is printed on the standard output stream, in the line of line 36.
\<close>

theorem fetch_error_text_not_on_stderr_counterexample:
  "subprocess_run (example_world run_fetch_fails) fetch_argv =
     Inr \<lparr>returncode = 254, stdout = [], stderr = lit ''AccessDenied''\<rparr>
   \<and> process_stderr (main (example_world run_fetch_fails)) = []
   \<and> printed (main (example_world run_fetch_fails)) = [line24, line36 (lit ''AccessDenied'')]"
  by (simp add: main_fetch_failed [OF fetch_fails_world] fetch_fails_world process_stderr_def)

text \<open>
  Claim C3, amended. When the fetch call completes with a status other than 0, the fetch
  call is the only command that is run (no update call, whatever its payload), the
  process ends through \<open>sys.exit(1)\<close> with status 1, and the provider's error text is
  printed after the failure marker on the standard output stream; nothing goes to the
  standard error stream.
\<close>

theorem fetch_failure_stops_before_submit:
  assumes "subprocess_run w fetch_argv = Inr result" "returncode result \<noteq> 0"
  shows "calls (main w) = [fetch_argv]
       \<and> (\<forall>p. update_argv p \<notin> set (calls (main w)))
       \<and> exit (main w) = SysExit 1
       \<and> exit_status (exit (main w)) = 1
       \<and> printed (main w) = [line24, line36 (stderr result)]
       \<and> process_stderr (main w) = []
       \<and> printed (main w) ! 1
           = [10060] @ lit '' Error fetching current configuration: '' @ stderr result"
  by (simp add: main_fetch_failed [OF assms] update_argv_neq_fetch_argv process_stderr_def
      line36_def)

theorem fetch_failure_stops_before_submit_witness:
  "subprocess_run (example_world run_fetch_fails) fetch_argv =
     Inr \<lparr>returncode = 254, stdout = [], stderr = lit ''AccessDenied''\<rparr>
   \<and> calls (main (example_world run_fetch_fails)) = [fetch_argv]
   \<and> exit_status (exit (main (example_world run_fetch_fails))) = 1
   \<and> printed (main (example_world run_fetch_fails)) = [line24, line36 (lit ''AccessDenied'')]"
  using fetch_failure_stops_before_submit [OF fetch_fails_world] fetch_fails_world
  by simp

subsection \<open>A fetch that prints \<open>null\<close>\<close>

text \<open>
  Claim C8 as stated does not hold in the place of the failure: on the output \<open>null\<close>
  the exception leaves line 40, where \<open>len(current_env)\<close> is printed; the merge of line
  43 is not reached.
\<close>

theorem null_fetch_fails_before_merge_counterexample:
  "subprocess_run (example_world run_null) fetch_argv =
     Inr \<lparr>returncode = 0, stdout = lit ''null'', stderr = []\<rparr>
   \<and> json_loads (example_world run_null) (lit ''null'') = Some JNull
   \<and> exit (main (example_world run_null)) = Uncaught 40 TypeError
   \<and> exit (main (example_world run_null)) \<noteq> Uncaught 43 TypeError"
  using null_world by (simp add: main_fetched_null [of "example_world run_null"])

text \<open>
  Claim C8, amended. When the fetch call succeeds and its output parses to \<open>None\<close>, the
  script does not go on as with an empty set: \<open>len(current_env)\<close> in line 40 raises a
  \<open>TypeError\<close> that nothing catches, the process ends with a traceback and status 1
  after the first progress line, and no update call is made.
\<close>

theorem null_fetch_is_not_an_empty_set:
  assumes "subprocess_run w fetch_argv = Inr result" "returncode result = 0"
    "json_loads w (stdout result) = Some JNull"
  shows "exit (main w) = Uncaught 40 TypeError
       \<and> process_stderr (main w) = [Traceback 40 TypeError]
       \<and> exit_status (exit (main w)) = 1
       \<and> printed (main w) = [line24]
       \<and> calls (main w) = [fetch_argv]
       \<and> (\<forall>p. update_argv p \<notin> set (calls (main w)))"
  by (simp add: main_fetched_null [OF assms] update_argv_neq_fetch_argv process_stderr_def)

theorem null_fetch_is_not_an_empty_set_witness:
  "subprocess_run (example_world run_null) fetch_argv =
     Inr \<lparr>returncode = 0, stdout = lit ''null'', stderr = []\<rparr>
   \<and> json_loads (example_world run_null) (lit ''null'') = Some JNull
   \<and> exit (main (example_world run_null)) = Uncaught 40 TypeError
   \<and> calls (main (example_world run_null)) = [fetch_argv]"
proof -
  have run: "subprocess_run (example_world run_null) fetch_argv =
     Inr \<lparr>returncode = 0, stdout = lit ''null'', stderr = []\<rparr>"
    using null_world by simp
  have rc: "returncode \<lparr>returncode = 0, stdout = lit ''null'', stderr = []\<rparr> = 0"
    by simp
  have parsed: "json_loads (example_world run_null)
      (stdout \<lparr>returncode = 0, stdout = lit ''null'', stderr = []\<rparr>) = Some JNull"
    using null_world by simp
  from null_fetch_is_not_an_empty_set [OF run rc parsed] run parsed
  show ?thesis by simp
qed

subsection \<open>What is submitted\<close>

lemma merge_keeps_other_keys:
  "k \<notin> fst ` set P \<Longrightarrow> map_of (merge E P) k = map_of E k"
proof -
  assume "k \<notin> fst ` set P"
  then have "map_of (rev P) k = None"
    by (simp add: map_of_eq_None_iff)
  then show ?thesis
    by (simp add: map_of_merge_at)
qed

lemma merge_patch_wins:
  "distinct (map fst P) \<Longrightarrow> (k, v) \<in> set P \<Longrightarrow> map_of (merge E P) k = Some v"
proof -
  assume "distinct (map fst P)" "(k, v) \<in> set P"
  then have "map_of (rev P) k = Some v"
    by (simp add: distinct_rev rev_map[symmetric])
  then show ?thesis
    by (simp add: map_of_merge_at)
qed

lemma run_ok_world:
  "subprocess_run (example_world run_ok) fetch_argv =
     Inr \<lparr>returncode = 0, stdout = lit ''FETCHED'', stderr = []\<rparr>"
  "json_loads (example_world run_ok) (lit ''FETCHED'') = Some (JObj example_env)"
  by (simp_all add: example_world_def run_ok_def stub_loads_def lit_inject)

lemma payload_world_fetch:
  "subprocess_run payload_world fetch_argv =
     Inr \<lparr>returncode = 0, stdout = lit ''FETCHED'', stderr = []\<rparr>"
  "json_loads payload_world (lit ''FETCHED'') = Some (JObj example_env)"
  by (simp_all add: payload_world_def run_ok_def echo_loads_def stub_loads_def lit_inject)

lemma payload_world_roundtrip:
  "json_dumps payload_world (JObj [(lit ''Variables'', JObj (merge example_env sms_config))])
     = lit ''MERGED''"
  "json_loads payload_world (lit ''MERGED'')
     = Some (JObj [(lit ''Variables'', JObj (merge example_env sms_config))])"
  by (simp_all add: payload_world_def echo_dumps_def echo_loads_def)

lemma patch_alone_differs: "(sms_config :: nat dict) \<noteq> merge example_env sms_config"
  by (simp add: example_env_def sms_config_def lit_inject)

text \<open>
  Claim C2. When the fetch call succeeds and its output parses to a dictionary \<open>E\<close>, the
  script runs, after the fetch command, the command
  \<open>aws lambda update-function-configuration --function-name scrapmate-node-api-production
  --region ap-south-1 --environment p\<close>, whose last word \<open>p\<close> is the serialisation of
  \<open>{"Variables": U}\<close> with \<open>U\<close> the merge of \<open>E\<close> with \<open>sms_config\<close>. Where the parser
  reads that serialisation back, the word after \<open>--environment\<close> parses to a dictionary
  whose \<open>Variables\<close> is \<open>U\<close>. Every key of \<open>E\<close> is a key of \<open>U\<close>, a key outside
  \<open>sms_config\<close> has in \<open>U\<close> the value it has in \<open>E\<close>, and every item of \<open>sms_config\<close> is in
  \<open>U\<close> with the value of \<open>sms_config\<close>. So the full replacement drops no key that was
  fetched.
\<close>

theorem submitted_env_superset_of_fetched:
  fixes w :: "'n world"
  assumes "subprocess_run w fetch_argv = Inr result" "returncode result = 0"
    "json_loads w (stdout result) = Some (JObj E)"
  shows "calls (main w) =
           [fetch_argv,
            [lit ''aws'', lit ''lambda'', lit ''update-function-configuration'',
             lit ''--function-name'', lit ''scrapmate-node-api-production'',
             lit ''--region'', lit ''ap-south-1'',
             lit ''--environment'',
             json_dumps w (JObj [(lit ''Variables'', JObj (merge E sms_config))])]]
       \<and> (json_loads w (json_dumps w (JObj [(lit ''Variables'', JObj (merge E sms_config))]))
            = Some (JObj [(lit ''Variables'', JObj (merge E sms_config))]) \<longrightarrow>
          (\<exists>argv env. calls (main w) = [fetch_argv, argv]
             \<and> json_loads w (last argv) = Some env
             \<and> getitem env (lit ''Variables'') = Inr (JObj (merge E sms_config))))
       \<and> calls (main w) =
           [fetch_argv,
            update_argv (json_dumps w (JObj [(lit ''Variables'', JObj (merge E sms_config))]))]
       \<and> fst ` set E \<subseteq> fst ` set (merge E sms_config)
       \<and> (\<forall>k. k \<notin> fst ` set (sms_config :: 'n dict) \<longrightarrow>
              map_of (merge E sms_config) k = map_of E k)
       \<and> (\<forall>k v. (k, v) \<in> set sms_config \<longrightarrow> map_of (merge E sms_config) k = Some v)"
proof (intro conjI allI impI)
  let ?p = "json_dumps w (JObj [(lit ''Variables'', JObj (merge E sms_config))])"
  show named: "calls (main w) = [fetch_argv, update_argv ?p]"
    by (simp add: main_fetched [OF assms] calls_submit_stage)
  then show words: "calls (main w) =
           [fetch_argv,
            [lit ''aws'', lit ''lambda'', lit ''update-function-configuration'',
             lit ''--function-name'', lit ''scrapmate-node-api-production'',
             lit ''--region'', lit ''ap-south-1'',
             lit ''--environment'', ?p]]"
    by (simp add: update_argv_def function_name_def region_def)
  show "\<exists>argv env. calls (main w) = [fetch_argv, argv]
             \<and> json_loads w (last argv) = Some env
             \<and> getitem env (lit ''Variables'') = Inr (JObj (merge E sms_config))"
    if "json_loads w ?p = Some (JObj [(lit ''Variables'', JObj (merge E sms_config))])"
  proof (intro exI conjI)
    show "calls (main w) = [fetch_argv, update_argv ?p]"
      by (rule named)
    show "json_loads w (last (update_argv ?p))
        = Some (JObj [(lit ''Variables'', JObj (merge E sms_config))])"
      using that by (simp add: update_argv_def)
    show "getitem (JObj [(lit ''Variables'', JObj (merge E sms_config))]) (lit ''Variables'')
        = Inr (JObj (merge E sms_config))"
      by simp
  qed
  show "fst ` set E \<subseteq> fst ` set (merge E sms_config)"
    by (simp add: keys_merge)
  show "map_of (merge E sms_config) k = map_of E k" if "k \<notin> fst ` set (sms_config :: 'n dict)" for k
    using that by (rule merge_keeps_other_keys)
  show "map_of (merge E sms_config) k = Some v" if "(k, v) \<in> set sms_config" for k v
    using sms_config_keys_distinct that by (rule merge_patch_wins)
qed

theorem submitted_env_superset_of_fetched_witness:
  "subprocess_run payload_world fetch_argv =
     Inr \<lparr>returncode = 0, stdout = lit ''FETCHED'', stderr = []\<rparr>
   \<and> json_loads payload_world (lit ''FETCHED'') = Some (JObj example_env)
   \<and> calls (main payload_world) =
       [fetch_argv,
        [lit ''aws'', lit ''lambda'', lit ''update-function-configuration'',
         lit ''--function-name'', lit ''scrapmate-node-api-production'',
         lit ''--region'', lit ''ap-south-1'',
         lit ''--environment'', lit ''MERGED'']]
   \<and> json_loads payload_world (lit ''MERGED'')
       = Some (JObj [(lit ''Variables'', JObj (merge example_env sms_config))])
   \<and> json_dumps payload_world (JObj [(lit ''Variables'', JObj sms_config)]) = lit ''OTHER''
   \<and> map_of (merge example_env sms_config) (lit ''FOO'') = Some (JStr (lit ''bar''))
   \<and> map_of (merge example_env sms_config) (lit ''SMS_API_KEY'')
       = Some (JStr (lit ''/BR2+k;L(-aPKA@r%5SO*GzcCm8&Hg6o''))"
proof -
  have rc: "returncode \<lparr>returncode = 0, stdout = lit ''FETCHED'', stderr = []\<rparr> = 0"
    by simp
  have parsed: "json_loads payload_world
      (stdout \<lparr>returncode = 0, stdout = lit ''FETCHED'', stderr = []\<rparr>) = Some (JObj example_env)"
    using payload_world_fetch(2) by simp
  have foo: "lit ''FOO'' \<notin> fst ` set (sms_config :: nat dict)"
    by (simp add: sms_config_def lit_inject)
  have foo_env: "map_of example_env (lit ''FOO'') = Some (JStr (lit ''bar''))"
    by (simp add: example_env_def)
  have key: "(lit ''SMS_API_KEY'', JStr (lit ''/BR2+k;L(-aPKA@r%5SO*GzcCm8&Hg6o''))
      \<in> set (sms_config :: nat dict)"
    by (simp add: sms_config_def)
  have other: "json_dumps payload_world (JObj [(lit ''Variables'', JObj sms_config)]) = lit ''OTHER''"
    using patch_alone_differs by (simp add: payload_world_def echo_dumps_def)
  note superset = submitted_env_superset_of_fetched [OF payload_world_fetch(1) rc parsed]
  from superset have "calls (main payload_world) =
       [fetch_argv,
        [lit ''aws'', lit ''lambda'', lit ''update-function-configuration'',
         lit ''--function-name'', lit ''scrapmate-node-api-production'',
         lit ''--region'', lit ''ap-south-1'',
         lit ''--environment'',
         json_dumps payload_world
           (JObj [(lit ''Variables'', JObj (merge example_env sms_config))])]]"
    by (rule conjunct1)
  then have submitted: "calls (main payload_world) =
       [fetch_argv,
        [lit ''aws'', lit ''lambda'', lit ''update-function-configuration'',
         lit ''--function-name'', lit ''scrapmate-node-api-production'',
         lit ''--region'', lit ''ap-south-1'',
         lit ''--environment'', lit ''MERGED'']]"
    by (simp only: payload_world_roundtrip(1))
  from superset foo have "map_of (merge example_env sms_config) (lit ''FOO'')
      = map_of example_env (lit ''FOO'')"
    by blast
  with foo_env have kept: "map_of (merge example_env sms_config) (lit ''FOO'')
      = Some (JStr (lit ''bar''))"
    by simp
  from superset key have replaced: "map_of (merge example_env sms_config) (lit ''SMS_API_KEY'')
       = Some (JStr (lit ''/BR2+k;L(-aPKA@r%5SO*GzcCm8&Hg6o''))"
    by blast
  from submitted kept replaced other payload_world_fetch payload_world_roundtrip(2)
  show ?thesis
    by simp
qed

subsection \<open>The report\<close>

lemma report_strings:
  fixes w :: "'n world" and vars :: "'n dict"
  assumes strings: "\<forall>(k, v) \<in> set vars. \<exists>s. v = JStr s"
    and ks: "set ks \<subseteq> fst ` set vars"
  shows "\<exists>ls. report w (JObj vars) ks = (ls, Completed)
          \<and> list_all2 (\<lambda>k l. \<exists>v dv. map_of vars k = Some v \<and> display_value w k v = Inr dv
                                   \<and> l = report_line w k dv) ks ls"
  using ks
proof (induction ks)
  case Nil
  show ?case by simp
next
  case (Cons key ks)
  from Cons.prems have "key \<in> fst ` set vars" by simp
  then obtain v where v: "map_of vars key = Some v"
    by (metis domD dom_map_of_conv_image_fst)
  then have "(key, v) \<in> set vars"
    by (rule map_of_SomeD)
  with strings obtain s where s: "v = JStr s"
    by blast
  obtain dv where dv: "display_value w key v = Inr dv"
    by (simp add: s display_value_str)
  from Cons obtain ls where ls: "report w (JObj vars) ks = (ls, Completed)"
    "list_all2 (\<lambda>k l. \<exists>v dv. map_of vars k = Some v \<and> display_value w k v = Inr dv
                                   \<and> l = report_line w k dv) ks ls"
    by auto
  show ?case
    using v dv ls by simp
qed

text \<open>
  Claim C7. When the confirmation parses to a value whose \<open>["Environment"]["Variables"]\<close>
  is a dictionary of strings, the report stage prints, after its two heading lines, one
  line for every key of that dictionary and nothing else, in the sorted order of the
  keys, and the script runs to its end. The line of a key is built from the key and the
  displayed value of the value stored under it, so the output is a function of the
  confirmation alone.
\<close>

theorem report_sorted_one_line_per_key:
  fixes w :: "'n world" and vars :: "'n dict"
  assumes "json_loads w update_stdout = Some updated_config"
    and "getitem updated_config (lit ''Environment'') = Inr environment"
    and "getitem environment (lit ''Variables'') = Inr (JObj vars)"
    and "\<forall>(k, v) \<in> set vars. \<exists>s. v = JStr s"
  shows "\<exists>ls. printed (report_stage w out cs update_stdout) = out @ [line64, line65] @ ls
          \<and> exit (report_stage w out cs update_stdout) = Completed
          \<and> list_all2 (\<lambda>k l. \<exists>v dv. map_of vars k = Some v \<and> display_value w k v = Inr dv
                                   \<and> l = report_line w k dv) (sorted_py (map fst vars)) ls
          \<and> length ls = length vars
          \<and> sorted (sorted_py (map fst vars))
          \<and> set (sorted_py (map fst vars)) = fst ` set vars"
proof -
  have "set (sorted_py (map fst vars)) \<subseteq> fst ` set vars"
    by (simp add: sorted_py_def)
  from report_strings [OF assms(4) this, of w]
  obtain ls where ls: "report w (JObj vars) (sorted_py (map fst vars)) = (ls, Completed)"
    "list_all2 (\<lambda>k l. \<exists>v dv. map_of vars k = Some v \<and> display_value w k v = Inr dv
                                   \<and> l = report_line w k dv) (sorted_py (map fst vars)) ls"
    by blast
  from ls(2) have "length ls = length (sorted_py (map fst vars))"
    by (simp add: list_all2_lengthD)
  then have len: "length ls = length vars"
    by (simp add: sorted_py_def)
  have "printed (report_stage w out cs update_stdout) = out @ [line64, line65] @ ls"
    "exit (report_stage w out cs update_stdout) = Completed"
    using assms(1-3) ls(1) by (simp_all add: report_stage_def)
  with ls(2) len show ?thesis
    by (auto simp: sorted_py_def)
qed


lemma merged_example:
  "merge example_env (sms_config :: nat dict) =
    [(lit ''FOO'', JStr (lit ''bar'')),
     (lit ''SMS_API_KEY'', JStr (lit ''/BR2+k;L(-aPKA@r%5SO*GzcCm8&Hg6o'')),
     (lit ''SMS_API_URL_NEW'', JStr (lit ''http://4sms.alp-ts.com/api/sms/v1.0/send-sms'')),
     (lit ''SMS_API_ENITYID'', JStr (lit ''1701173389563945545'')),
     (lit ''SMS_API_TOKEN'', JStr (lit ''EVLZ8267TMY1O2Z'')),
     (lit ''SMS_HEADER_CENTER_ID'', JStr (lit ''SCRPMT''))]"
  by (simp add: example_env_def sms_config_def lit_inject)

lemma confirmation_world:
  "json_loads (example_world run_ok) (lit ''CONFIRMATION'') =
     Some (JObj [(lit ''Environment'',
                  JObj [(lit ''Variables'', JObj (merge example_env sms_config))])])"
  by (simp add: example_world_def stub_loads_def lit_inject)

theorem report_sorted_one_line_per_key_witness:
  "json_loads (example_world run_ok) (lit ''CONFIRMATION'') =
     Some (JObj [(lit ''Environment'',
                  JObj [(lit ''Variables'', JObj (merge example_env sms_config))])])
   \<and> exit (report_stage (example_world run_ok) [] [] (lit ''CONFIRMATION'')) = Completed
   \<and> length (printed (report_stage (example_world run_ok) [] [] (lit ''CONFIRMATION''))) = 8"
proof -
  have env: "getitem (JObj [(lit ''Environment'',
                  JObj [(lit ''Variables'', JObj (merge example_env sms_config))])])
       (lit ''Environment'') = Inr (JObj [(lit ''Variables'', JObj (merge example_env sms_config))])"
    by simp
  have vars: "getitem (JObj [(lit ''Variables'', JObj (merge example_env sms_config))])
       (lit ''Variables'') = Inr (JObj (merge example_env (sms_config :: nat dict)))"
    by simp
  have strings: "\<forall>(k, v) \<in> set (merge example_env (sms_config :: nat dict)). \<exists>s. v = JStr s"
    by (simp add: merged_example)
  have six: "length (merge example_env (sms_config :: nat dict)) = 6"
    by (simp add: merged_example)
  from report_sorted_one_line_per_key [OF confirmation_world env vars strings, of "[]" "[]"]
  obtain ls where "printed (report_stage (example_world run_ok) [] [] (lit ''CONFIRMATION''))
       = [] @ [line64, line65] @ ls"
    "exit (report_stage (example_world run_ok) [] [] (lit ''CONFIRMATION'')) = Completed"
    "length ls = length (merge example_env (sms_config :: nat dict))"
    by blast
  with six confirmation_world show ?thesis
    by simp
qed

text \<open>The report of the example confirmation, computed.\<close>

lemma sorted_example:
  "sorted_py (map fst (merge example_env (sms_config :: nat dict))) =
     [lit ''FOO'', lit ''SMS_API_ENITYID'', lit ''SMS_API_KEY'', lit ''SMS_API_TOKEN'',
      lit ''SMS_API_URL_NEW'', lit ''SMS_HEADER_CENTER_ID'']"
  by (simp add: merged_example sorted_py_def lit_def)

lemma sensitive_example_keys:
  "\<not> sensitive (lit ''FOO'')" "\<not> sensitive (lit ''SMS_API_ENITYID'')"
  "sensitive (lit ''SMS_API_TOKEN'')" "\<not> sensitive (lit ''SMS_HEADER_CENTER_ID'')"
  by (simp_all add: sensitive_def lit_def)

lemma take10_token: "take 10 (lit ''EVLZ8267TMY1O2Z'') @ lit ''...'' = lit ''EVLZ8267TM...''"
  "length (lit ''EVLZ8267TMY1O2Z'') > 10"
  by (simp_all add: lit_def)

lemma report_example:
  "report (example_world run_ok) (JObj (merge example_env sms_config))
     (sorted_py (map fst (merge example_env (sms_config :: nat dict)))) =
   ([report_line (example_world run_ok) (lit ''FOO'') (JStr (lit ''bar'')),
     report_line (example_world run_ok) (lit ''SMS_API_ENITYID'') (JStr (lit ''1701173389563945545'')),
     report_line (example_world run_ok) (lit ''SMS_API_KEY'') (JStr (lit ''/BR2+k;L(-...'')),
     report_line (example_world run_ok) (lit ''SMS_API_TOKEN'') (JStr (lit ''EVLZ8267TM...'')),
     report_line (example_world run_ok) (lit ''SMS_API_URL_NEW'')
       (JStr (lit ''http://4sms.alp-ts.com/api/sms/v1.0/send-sms'')),
     report_line (example_world run_ok) (lit ''SMS_HEADER_CENTER_ID'') (JStr (lit ''SCRPMT''))],
    Completed)"
  unfolding sorted_example
  by (simp add: merged_example lit_inject display_value_str sensitive_example_keys
      sensitive_SMS_API_KEY not_sensitive_SMS_API_URL_NEW take10_token take10_api_key length_api_key)

subsection \<open>How the process ends\<close>

lemma exit_report:
  "report w v ks = (ls, ex) \<Longrightarrow> ex = Completed \<or> (\<exists>l e. ex = Uncaught l e)"
  by (induction ks arbitrary: ls) (auto split: sum.splits prod.splits)

lemma exit_report_stage:
  "exit (report_stage w out cs s) = Completed
   \<or> (\<exists>l e. exit (report_stage w out cs s) = Uncaught l e)"
  by (auto simp: report_stage_def Let_def dest: exit_report
      split: option.splits sum.splits prod.splits)

lemma submit_stage_raised:
  assumes "subprocess_run w (update_argv (json_dumps w (JObj [(lit ''Variables'', JObj upd)]))) = Inl e"
  shows "exit (submit_stage w out upd) = Uncaught 50 e"
  using assms by (simp add: submit_stage_def Let_def)

lemma submit_stage_failed:
  assumes "subprocess_run w (update_argv (json_dumps w (JObj [(lit ''Variables'', JObj upd)]))) = Inr r"
    and "returncode r \<noteq> 0"
  shows "submit_stage w out upd =
    \<lparr>printed = out @ [line44 (length upd), line45, line48] @ [line60 (stderr r)],
     calls = [fetch_argv, update_argv (json_dumps w (JObj [(lit ''Variables'', JObj upd)]))],
     exit = SysExit 1\<rparr>"
  using assms by (simp add: submit_stage_def Let_def)

lemma submit_stage_ok:
  assumes "subprocess_run w (update_argv (json_dumps w (JObj [(lit ''Variables'', JObj upd)]))) = Inr r"
    and "returncode r = 0"
  shows "submit_stage w out upd =
    report_stage w (out @ [line44 (length upd), line45, line48])
      [fetch_argv, update_argv (json_dumps w (JObj [(lit ''Variables'', JObj upd)]))] (stdout r)"
  using assms by (simp add: submit_stage_def Let_def)

lemma exit_submit_stage:
  "exit (submit_stage w out upd) = Completed \<or> exit (submit_stage w out upd) = SysExit 1
   \<or> (\<exists>l e. exit (submit_stage w out upd) = Uncaught l e)"
proof (cases "subprocess_run w (update_argv (json_dumps w (JObj [(lit ''Variables'', JObj upd)])))")
  case (Inl e)
  then show ?thesis by (simp add: submit_stage_raised)
next
  case (Inr r)
  show ?thesis
  proof (cases "returncode r = 0")
    case True
    show ?thesis
      unfolding submit_stage_ok [OF Inr True] using exit_report_stage by blast
  next
    case False
    with Inr show ?thesis by (simp add: submit_stage_failed)
  qed
qed

lemma submit_stage_completed:
  assumes "exit (submit_stage w out upd) = Completed"
  shows "\<exists>r. subprocess_run w (update_argv (json_dumps w (JObj [(lit ''Variables'', JObj upd)]))) = Inr r
            \<and> returncode r = 0"
proof (cases "subprocess_run w (update_argv (json_dumps w (JObj [(lit ''Variables'', JObj upd)])))")
  case (Inl e)
  with assms show ?thesis by (simp add: submit_stage_raised)
next
  case (Inr r)
  with assms show ?thesis by (cases "returncode r = 0") (simp_all add: submit_stage_failed)
qed

text \<open>The branches of \<open>main\<close>: it ends before the merge is done, or goes on to submit.\<close>

lemma main_cases:
  obtains (raised) e where "subprocess_run w fetch_argv = Inl e"
      "main w = \<lparr>printed = [line24], calls = [fetch_argv], exit = Uncaught 25 e\<rparr>"
  | (failed) r where "subprocess_run w fetch_argv = Inr r" "returncode r \<noteq> 0"
      "main w = \<lparr>printed = [line24, line36 (stderr r)], calls = [fetch_argv], exit = SysExit 1\<rparr>"
  | (stopped) r out l e where "subprocess_run w fetch_argv = Inr r" "returncode r = 0"
      "main w = \<lparr>printed = out, calls = [fetch_argv], exit = Uncaught l e\<rparr>"
  | (fetched) r E where "subprocess_run w fetch_argv = Inr r" "returncode r = 0"
      "json_loads w (stdout r) = Some (JObj E)"
      "main w = submit_stage w [line24, line40 (length E)] (merge E sms_config)"
proof (cases "subprocess_run w fetch_argv")
  case (Inl e)
  then show ?thesis by (intro raised [of e]) (simp_all add: main_def)
next
  case (Inr r)
  show ?thesis
  proof (cases "returncode r = 0")
    case False
    with Inr show ?thesis by (intro failed [of r]) (simp_all add: main_def)
  next
    case True
    show ?thesis
    proof (cases "json_loads w (stdout r)")
      case None
      with Inr True show ?thesis
        by (intro stopped [of r "[line24]" 39 JSONDecodeError]) (simp_all add: main_def)
    next
      case (Some current_env)
      show ?thesis
      proof (cases current_env)
        case (JObj E)
        with Inr True Some show ?thesis
          by (intro fetched [of r E]) (simp_all add: main_def)
      next
        case JNull
        with Inr True Some show ?thesis
          by (intro stopped [of r "[line24]" 40 TypeError]) (simp_all add: main_def)
      next
        case (JBool b)
        with Inr True Some show ?thesis
          by (intro stopped [of r "[line24]" 40 TypeError]) (simp_all add: main_def)
      next
        case (JNum n)
        with Inr True Some show ?thesis
          by (intro stopped [of r "[line24]" 40 TypeError]) (simp_all add: main_def)
      next
        case (JStr s)
        with Inr True Some show ?thesis
          by (intro stopped [of r "[line24, line40 (length s)]" 43 TypeError])
            (simp_all add: main_def)
      next
        case (JArr xs)
        with Inr True Some show ?thesis
          by (intro stopped [of r "[line24, line40 (length xs)]" 43 TypeError])
            (simp_all add: main_def)
      qed
    qed
  qed
qed


lemma exit_main:
  "exit (main w) = Completed \<or> exit (main w) = SysExit 1
   \<or> (\<exists>l e. exit (main w) = Uncaught l e)"
proof (cases w rule: main_cases)
  case (fetched r E)
  then show ?thesis using exit_submit_stage by simp
qed simp_all

lemma calls_main:
  "calls (main w) = [fetch_argv] \<or> (\<exists>p. calls (main w) = [fetch_argv, update_argv p])"
proof (cases w rule: main_cases)
  case (fetched r E)
  then have "calls (main w) =
      [fetch_argv, update_argv (json_dumps w (JObj [(lit ''Variables'', JObj (merge E sms_config))]))]"
    by (simp add: calls_submit_stage)
  then show ?thesis by blast
qed simp_all

lemma main_completed:
  assumes "exit (main w) = Completed"
  shows "\<exists>r1 r2 p. calls (main w) = [fetch_argv, update_argv p]
           \<and> subprocess_run w fetch_argv = Inr r1 \<and> returncode r1 = 0
           \<and> subprocess_run w (update_argv p) = Inr r2 \<and> returncode r2 = 0"
proof (cases w rule: main_cases)
  case (fetched r E)
  with assms have "exit (submit_stage w [line24, line40 (length E)] (merge E sms_config)) = Completed"
    by simp
  from submit_stage_completed [OF this] fetched show ?thesis
    by (auto simp: calls_submit_stage)
qed (use assms in simp_all)

lemma main_nonzero_call:
  assumes "argv \<in> set (calls (main w))" "subprocess_run w argv = Inr r" "returncode r \<noteq> 0"
  shows "exit (main w) = SysExit 1"
proof (cases w rule: main_cases)
  case (raised e)
  with assms show ?thesis by simp
next
  case (failed r')
  then show ?thesis by simp
next
  case (stopped r' out l e)
  with assms show ?thesis by simp
next
  case (fetched r' E)
  with assms have "argv = update_argv (json_dumps w (JObj [(lit ''Variables'', JObj (merge E sms_config))]))"
    by (auto simp: calls_submit_stage)
  with assms fetched show ?thesis
    by (simp add: submit_stage_failed)
qed

text \<open>
  Claim C6. The exit status is 0 exactly when the script runs off its end, and a run that
  ends so has made both provider calls and both have completed with status 0. Whenever
  a provider call that the run makes completes with a status other than 0, the exit
  status is 1. No other exit status occurs.
\<close>

theorem exit_status_zero_or_one:
  "(exit_status (exit (main w)) = 0 \<longleftrightarrow> exit (main w) = Completed)
   \<and> (exit (main w) = Completed \<longrightarrow>
        (\<exists>r1 r2 p. calls (main w) = [fetch_argv, update_argv p]
           \<and> subprocess_run w fetch_argv = Inr r1 \<and> returncode r1 = 0
           \<and> subprocess_run w (update_argv p) = Inr r2 \<and> returncode r2 = 0))
   \<and> (\<forall>argv \<in> set (calls (main w)). \<forall>r. subprocess_run w argv = Inr r \<longrightarrow>
        returncode r \<noteq> 0 \<longrightarrow> exit_status (exit (main w)) = 1)
   \<and> (exit_status (exit (main w)) = 0 \<or> exit_status (exit (main w)) = 1)"
proof (intro conjI ballI allI impI)
  show "exit_status (exit (main w)) = 0 \<longleftrightarrow> exit (main w) = Completed"
    using exit_main [of w] by auto
  show "exit_status (exit (main w)) = 0 \<or> exit_status (exit (main w)) = 1"
    using exit_main [of w] by auto
  show "\<exists>r1 r2 p. calls (main w) = [fetch_argv, update_argv p]
           \<and> subprocess_run w fetch_argv = Inr r1 \<and> returncode r1 = 0
           \<and> subprocess_run w (update_argv p) = Inr r2 \<and> returncode r2 = 0"
    if "exit (main w) = Completed"
    using that by (rule main_completed)
  show "exit_status (exit (main w)) = 1"
    if "argv \<in> set (calls (main w))" "subprocess_run w argv = Inr r" "returncode r \<noteq> 0"
    for argv r
    using main_nonzero_call [OF that] by simp
qed


lemma exit_report_stage_strings:
  fixes w :: "'n world" and vars :: "'n dict"
  assumes "json_loads w update_stdout = Some updated_config"
    and "getitem updated_config (lit ''Environment'') = Inr environment"
    and "getitem environment (lit ''Variables'') = Inr (JObj vars)"
    and "\<forall>(k, v) \<in> set vars. \<exists>s. v = JStr s"
  shows "exit (report_stage w out cs update_stdout) = Completed"
proof -
  have "set (sorted_py (map fst vars)) \<subseteq> fst ` set vars"
    by (simp add: sorted_py_def)
  from report_strings [OF assms(4) this, of w]
  obtain ls where "report w (JObj vars) (sorted_py (map fst vars)) = (ls, Completed)"
    by blast
  with assms(1-3) show ?thesis
    by (simp add: report_stage_def)
qed

lemma run_ok_update:
  "subprocess_run (example_world run_ok)
      (update_argv (json_dumps (example_world run_ok) j)) =
     Inr \<lparr>returncode = 0, stdout = lit ''CONFIRMATION'', stderr = []\<rparr>"
  by (simp add: example_world_def run_ok_def update_argv_neq_fetch_argv)

lemma main_example_completes: "exit (main (example_world run_ok)) = Completed"
proof -
  have "main (example_world run_ok) =
      submit_stage (example_world run_ok) [line24, line40 (length example_env)]
        (merge example_env sms_config)"
    by (rule main_fetched [OF run_ok_world(1)]) (simp_all add: run_ok_world(2))
  also have "\<dots> =
      report_stage (example_world run_ok)
        ([line24, line40 (length example_env)]
          @ [line44 (length (merge example_env (sms_config :: nat dict))), line45, line48])
        [fetch_argv, update_argv (json_dumps (example_world run_ok)
            (JObj [(lit ''Variables'', JObj (merge example_env sms_config))]))]
        (stdout \<lparr>returncode = 0, stdout = lit ''CONFIRMATION'', stderr = []\<rparr>)"
    by (rule submit_stage_ok [OF run_ok_update]) simp
  finally show ?thesis
    by (simp add: exit_report_stage_strings [OF confirmation_world] merged_example)
qed

lemma run_update_fails_world:
  "subprocess_run (example_world run_update_fails) fetch_argv =
     Inr \<lparr>returncode = 0, stdout = lit ''{}'', stderr = []\<rparr>"
  "json_loads (example_world run_update_fails) (lit ''{}'') = Some (JObj [])"
  "subprocess_run (example_world run_update_fails) (update_argv (lit ''PAYLOAD'')) =
     Inr \<lparr>returncode = 255, stdout = [], stderr = lit ''Throttled''\<rparr>"
  "json_dumps (example_world run_update_fails) j = lit ''PAYLOAD''"
  by (simp_all add: example_world_def run_update_fails_def stub_loads_def lit_inject
      update_argv_neq_fetch_argv)

lemma calls_update_fails:
  "calls (main (example_world run_update_fails)) = [fetch_argv, update_argv (lit ''PAYLOAD'')]"
proof -
  have "main (example_world run_update_fails) =
      submit_stage (example_world run_update_fails) [line24, line40 (length ([] :: nat dict))]
        (merge [] sms_config)"
    by (rule main_fetched [OF run_update_fails_world(1)])
      (simp_all add: run_update_fails_world(2))
  then show ?thesis
    by (simp add: calls_submit_stage run_update_fails_world(4))
qed

theorem exit_status_zero_or_one_witness:
  "exit (main (example_world run_ok)) = Completed
   \<and> exit_status (exit (main (example_world run_ok))) = 0
   \<and> update_argv (lit ''PAYLOAD'') \<in> set (calls (main (example_world run_update_fails)))
   \<and> subprocess_run (example_world run_update_fails) (update_argv (lit ''PAYLOAD'')) =
       Inr \<lparr>returncode = 255, stdout = [], stderr = lit ''Throttled''\<rparr>
   \<and> exit_status (exit (main (example_world run_update_fails))) = 1"
proof -
  have called: "update_argv (lit ''PAYLOAD'') \<in> set (calls (main (example_world run_update_fails)))"
    by (simp add: calls_update_fails)
  have nonzero: "returncode \<lparr>returncode = 255, stdout = [], stderr = lit ''Throttled''\<rparr> \<noteq> 0"
    by simp
  from exit_status_zero_or_one [of "example_world run_ok"] main_example_completes
  have ok: "exit_status (exit (main (example_world run_ok))) = 0"
    by blast
  from exit_status_zero_or_one [of "example_world run_update_fails"] called
    run_update_fails_world(3) nonzero
  have failed: "exit_status (exit (main (example_world run_update_fails))) = 1"
    by blast
  from main_example_completes ok called run_update_fails_world(3) failed show ?thesis
    by simp
qed

subsection \<open>The run depends on the answers only\<close>

lemma format_py_cong:
  assumes "str_of w' = str_of w"
  shows "format_py w' = format_py w"
proof
  fix x show "format_py w' x = format_py w x"
    using assms by (cases x) simp_all
qed

lemma display_value_cong:
  assumes "str_of w' = str_of w"
  shows "display_value w' = display_value w"
  by (intro ext) (unfold display_value_def format_py_cong [OF assms], rule refl)

lemma report_line_cong:
  assumes "str_of w' = str_of w"
  shows "report_line w' = report_line w"
  by (intro ext) (unfold report_line_def format_py_cong [OF assms], rule refl)

lemma report_cong:
  assumes "str_of w' = str_of w"
  shows "report w' v ks = report w v ks"
proof (induction ks)
  case Nil
  show ?case by simp
next
  case (Cons key ks)
  show ?case
    unfolding report.simps display_value_cong [OF assms] report_line_cong [OF assms] Cons.IH
    by (rule refl)
qed

lemma report_stage_cong:
  assumes "json_loads w' = json_loads w" "str_of w' = str_of w"
  shows "report_stage w' out cs s = report_stage w out cs s"
  unfolding report_stage_def assms(1) report_cong [OF assms(2)]
  by (rule refl)

lemma submit_stage_cong:
  assumes "json_loads w' = json_loads w" "json_dumps w' = json_dumps w" "str_of w' = str_of w"
    and "subprocess_run w' (update_argv (json_dumps w (JObj [(lit ''Variables'', JObj upd)])))
       = subprocess_run w (update_argv (json_dumps w (JObj [(lit ''Variables'', JObj upd)])))"
  shows "submit_stage w' out upd = submit_stage w out upd"
  unfolding submit_stage_def assms(2) Let_def assms(4) report_stage_cong [OF assms(1,3)]
  by (rule refl)

lemma main_before_submit_cong:
  assumes fetch: "subprocess_run w' fetch_argv = subprocess_run w fetch_argv"
    and loads: "json_loads w' = json_loads w"
    and once: "calls (main w) = [fetch_argv]"
  shows "main w' = main w"
proof (cases "subprocess_run w fetch_argv")
  case (Inl e)
  with fetch show ?thesis by (simp add: main_def)
next
  case (Inr r)
  show ?thesis
  proof (cases "returncode r = 0")
    case False
    with Inr fetch show ?thesis by (simp add: main_def)
  next
    case True
    show ?thesis
    proof (cases "json_loads w (stdout r)")
      case None
      with Inr True fetch loads show ?thesis by (simp add: main_def)
    next
      case (Some current_env)
      show ?thesis
      proof (cases current_env)
        case (JObj E)
        with Inr True Some have "main w =
            submit_stage w [line24, line40 (length E)] (merge E sms_config)"
          by (intro main_fetched [of w r E]) simp_all
        with once show ?thesis by (simp add: calls_submit_stage)
      qed (use Inr True Some fetch loads in \<open>simp_all add: main_def\<close>)
    qed
  qed
qed

lemma fetch_argv_called: "fetch_argv \<in> set (calls (main w))"
  using calls_main [of w] by auto

text \<open>
  Claim C10. Take two worlds with the same library functions. If every command that the
  script runs in the first world gets the same answer in the second (the same completed
  process, with its status, output text and error text, or the same failure to start),
  then the two runs are the same: the same printed lines, the same commands, the same
  end of the process, and so the same exit status.
\<close>

theorem same_answers_same_run:
  assumes lib: "json_loads w' = json_loads w" "json_dumps w' = json_dumps w" "str_of w' = str_of w"
    and answers: "\<forall>argv \<in> set (calls (main w)). subprocess_run w' argv = subprocess_run w argv"
  shows "main w' = main w
       \<and> printed (main w') = printed (main w)
       \<and> exit_status (exit (main w')) = exit_status (exit (main w))"
proof -
  from answers fetch_argv_called
  have fetch: "subprocess_run w' fetch_argv = subprocess_run w fetch_argv"
    by blast
  have "main w' = main w"
  proof (cases w rule: main_cases)
    case (fetched r E)
    from fetched(4) answers
    have "subprocess_run w' (update_argv (json_dumps w (JObj [(lit ''Variables'', JObj (merge E sms_config))])))
        = subprocess_run w (update_argv (json_dumps w (JObj [(lit ''Variables'', JObj (merge E sms_config))])))"
      by (simp add: calls_submit_stage)
    with lib have "submit_stage w' [line24, line40 (length E)] (merge E sms_config)
        = submit_stage w [line24, line40 (length E)] (merge E sms_config)"
      by (rule submit_stage_cong)
    moreover from fetched fetch lib have "main w' =
        submit_stage w' [line24, line40 (length E)] (merge E sms_config)"
      by (intro main_fetched [of w' r E]) simp_all
    ultimately show ?thesis
      using fetched(4) by simp
  next
    case (raised e)
    then have "calls (main w) = [fetch_argv]" by simp
    with fetch lib(1) show ?thesis by (rule main_before_submit_cong)
  next
    case (failed r)
    then have "calls (main w) = [fetch_argv]" by simp
    with fetch lib(1) show ?thesis by (rule main_before_submit_cong)
  next
    case (stopped r out l e)
    then have "calls (main w) = [fetch_argv]" by simp
    with fetch lib(1) show ?thesis by (rule main_before_submit_cong)
  qed
  then show ?thesis
    by simp
qed


lemma argv_called_nonempty: "argv \<in> set (calls (main w)) \<Longrightarrow> argv \<noteq> []"
  using calls_main [of w] by (auto simp: fetch_argv_def update_argv_def)

theorem same_answers_same_run_witness:
  "subprocess_run (example_world run_ok_elsewhere) [] = Inl OSError
   \<and> subprocess_run (example_world run_ok) [] \<noteq> Inl OSError
   \<and> main (example_world run_ok_elsewhere) = main (example_world run_ok)
   \<and> exit_status (exit (main (example_world run_ok_elsewhere))) = 0"
proof -
  have lib: "json_loads (example_world run_ok_elsewhere) = json_loads (example_world run_ok)"
    "json_dumps (example_world run_ok_elsewhere) = json_dumps (example_world run_ok)"
    "str_of (example_world run_ok_elsewhere) = str_of (example_world run_ok)"
    by (simp_all add: example_world_def)
  have answers: "\<forall>argv \<in> set (calls (main (example_world run_ok))).
      subprocess_run (example_world run_ok_elsewhere) argv
        = subprocess_run (example_world run_ok) argv"
    by (auto simp: example_world_def run_ok_elsewhere_def dest: argv_called_nonempty)
  have differ: "subprocess_run (example_world run_ok_elsewhere) [] = Inl OSError"
    "subprocess_run (example_world run_ok) [] \<noteq> Inl OSError"
    by (simp_all add: example_world_def run_ok_elsewhere_def run_ok_def)
  from same_answers_same_run [OF lib answers] main_example_completes differ
  show ?thesis by simp
qed

end
